theory Spec2Isabelle
  imports Complex_Main
begin

section \<open>Data model\<close>

text \<open>
  The program is \<^verbatim>\<open>src/html/module2.py\<close>: two functions without parameters,
  \<^verbatim>\<open>calc_det\<close> and \<^verbatim>\<open>serialize_graph\<close>, that call into numpy and rdflib.
  The values the program builds are RDF terms, triples, one graph object and one array
  object; the only state it touches is standard output and the objects it allocates.
\<close>

text \<open>
  An RDF term as the program constructs it: \<^verbatim>\<open>URIRef(s)\<close>, or a literal with its
  lexical form, its language tag and its datatype (both \<^verbatim>\<open>None\<close> when the
  constructor is called with the text alone).
\<close>

datatype node = URIRef string | Literal string "string option" "string option"

type_synonym triple = "node \<times> node \<times> node"

text \<open>
  Modelled from the spec: the type \<^verbatim>\<open>rdflib.Graph\<close> is declared in the library, not
  in the repository. Section 3 of the specification gives it as an unordered collection of
  unique triples, so the content of a graph object is a set of triples. The content of an
  array object is the nested list handed to \<^verbatim>\<open>np.array\<close>.
\<close>

datatype pyobj = GraphObj "triple set" | NdArray "int list list"

text \<open>
  What a run can see or change: the text written to standard output so far, and the store
  of allocated objects. A reference is an index into the store.
\<close>

record world =
  stdout :: string
  heap :: "pyobj list"

text \<open>
  The ways a step of the model can fail: a reference that does not lead to an object of
  the expected class, and the \<^verbatim>\<open>LinAlgError\<close> of \<^verbatim>\<open>numpy.linalg\<close> for an
  array that is not a square matrix.
\<close>

datatype error = BadReference | LinAlgError

section \<open>Library operations the program calls\<close>

text \<open>
  Modelled from the spec: the constant \<^verbatim>\<open>rdflib.namespace.FOAF\<close> is declared in the
  library. Section 4.2 of the specification gives its terms:
  \<^verbatim>\<open>FOAF.name\<close> is \<^verbatim>\<open>http://xmlns.com/foaf/0.1/name\<close> and \<^verbatim>\<open>FOAF.knows\<close> is
  \<^verbatim>\<open>http://xmlns.com/foaf/0.1/knows\<close>.
\<close>

definition FOAF :: "string \<Rightarrow> node" where
  "FOAF name = URIRef (''http://xmlns.com/foaf/0.1/'' @ name)"

text \<open>\<^verbatim>\<open>Literal(text)\<close>: no language tag and no datatype are given.\<close>

definition Literal_of_str :: "string \<Rightarrow> node" where
  "Literal_of_str s = Literal s None None"

text \<open>\<^verbatim>\<open>Graph()\<close>: a new, empty graph object; the reference to it is returned.\<close>

definition Graph_new :: "world \<Rightarrow> nat \<times> world" where
  "Graph_new w = (length (heap w), w\<lparr>heap := heap w @ [GraphObj {}]\<rparr>)"

text \<open>
  Modelled from the spec: \<^verbatim>\<open>g.add(triple)\<close> is a method of the library. Section 3 of
  the specification gives the graph set semantics, so adding stores the triple in the set
  held by the object \<^verbatim>\<open>g\<close> refers to, in place.
\<close>

definition graph_add :: "nat \<Rightarrow> triple \<Rightarrow> world \<Rightarrow> error + world" where
  "graph_add g t w =
     (if g < length (heap w) then
        (case heap w ! g of
           GraphObj ts \<Rightarrow> Inr (w\<lparr>heap := (heap w)[g := GraphObj (insert t ts)]\<rparr>)
         | NdArray m \<Rightarrow> Inl BadReference)
      else Inl BadReference)"

text \<open>
  \<^verbatim>\<open>g.serialize()\<close>: the serializer is the library's; it is a parameter \<open>ser\<close> of the
  model, a function of the triples of the graph whose result type \<open>'o\<close> is left open
  (text or bytes). The call reads the graph and changes nothing.
\<close>

definition graph_serialize :: "(triple set \<Rightarrow> 'o) \<Rightarrow> nat \<Rightarrow> world \<Rightarrow> error + 'o" where
  "graph_serialize ser g w =
     (if g < length (heap w) then
        (case heap w ! g of
           GraphObj ts \<Rightarrow> Inr (ser ts)
         | NdArray m \<Rightarrow> Inl BadReference)
      else Inl BadReference)"

text \<open>\<^verbatim>\<open>np.array(rows)\<close>: a new array object holding the rows.\<close>

definition np_array :: "int list list \<Rightarrow> world \<Rightarrow> nat \<times> world" where
  "np_array rows w = (length (heap w), w\<lparr>heap := heap w @ [NdArray rows]\<rparr>)"

text \<open>
  \<^verbatim>\<open>np.linalg.det(a)\<close>: the numeric routine is the library's; it is a parameter \<open>det\<close>
  of the model, a function of the entries of the array whose result type \<open>'f\<close> stands for
  the floating-point number numpy returns. The library refuses an array that is not a
  square matrix with \<^verbatim>\<open>LinAlgError\<close>. The call reads the array and changes nothing.
\<close>

definition is_square :: "int list list \<Rightarrow> bool" where
  "is_square m = (m \<noteq> [] \<and> list_all (\<lambda>r. length r = length m) m)"

definition linalg_det :: "(int list list \<Rightarrow> 'f) \<Rightarrow> nat \<Rightarrow> world \<Rightarrow> error + 'f" where
  "linalg_det det a w =
     (if a < length (heap w) then
        (case heap w ! a of
           NdArray m \<Rightarrow> (if is_square m then Inr (det m) else Inl LinAlgError)
         | GraphObj ts \<Rightarrow> Inl BadReference)
      else Inl BadReference)"

text \<open>\<^verbatim>\<open>print(s)\<close>: the text and a line feed are appended to standard output.\<close>

definition py_print :: "string \<Rightarrow> world \<Rightarrow> world" where
  "py_print s w = w\<lparr>stdout := stdout w @ s @ [CHR 0x0A]\<rparr>"

section \<open>The two functions of the program\<close>

text \<open>
  \<^verbatim>\<open>
  def calc_det():
      a = np.array([[1, 2], [3, 4]])
      print(f"Determinant is {np.linalg.det(a)}")
  \<close>
  The replacement field of the f-string formats the number with the library's own
  conversion to text, the parameter \<open>fmt\<close>. The function returns \<^verbatim>\<open>None\<close>, so the
  model returns the world alone.
\<close>

definition calc_det :: "(int list list \<Rightarrow> 'f) \<Rightarrow> ('f \<Rightarrow> string) \<Rightarrow> world \<Rightarrow> error + world" where
  "calc_det det fmt w =
     (case np_array [[1, 2], [3, 4]] w of (a, w1) \<Rightarrow>
        (case linalg_det det a w1 of
           Inl e \<Rightarrow> Inl e
         | Inr d \<Rightarrow> Inr (py_print (''Determinant is '' @ fmt d) w1)))"

text \<open>
  \<^verbatim>\<open>
  def serialize_graph():
      g = Graph()
      alice = URIRef("http://example.org/alice")
      bob = URIRef("http://example.org/bob")
      g.add((alice, FOAF.name, Literal("Alice")))
      g.add((bob, FOAF.name, Literal("Bob")))
      g.add((alice, FOAF.knows, bob))
      return g.serialize()
  \<close>
\<close>

definition serialize_graph :: "(triple set \<Rightarrow> 'o) \<Rightarrow> world \<Rightarrow> error + ('o \<times> world)" where
  "serialize_graph ser w =
     (case Graph_new w of (g, w0) \<Rightarrow>
        (let alice = URIRef ''http://example.org/alice'';
             bob = URIRef ''http://example.org/bob''
         in case graph_add g (alice, FOAF ''name'', Literal_of_str ''Alice'') w0 of
              Inl e \<Rightarrow> Inl e
            | Inr w1 \<Rightarrow>
         (case graph_add g (bob, FOAF ''name'', Literal_of_str ''Bob'') w1 of
              Inl e \<Rightarrow> Inl e
            | Inr w2 \<Rightarrow>
         (case graph_add g (alice, FOAF ''knows'', bob) w2 of
              Inl e \<Rightarrow> Inl e
            | Inr w3 \<Rightarrow>
         (case graph_serialize ser g w3 of
              Inl e \<Rightarrow> Inl e
            | Inr out \<Rightarrow> Inr (out, w3))))))"

text \<open>
  The three statements of section 3 of the specification, written out with the
  identifiers of section 4.2; the theorems compare the graph the program builds with it.
\<close>

definition spec_triples :: "triple set" where
  "spec_triples =
     {(URIRef ''http://example.org/alice'', URIRef ''http://xmlns.com/foaf/0.1/name'',
         Literal ''Alice'' None None),
      (URIRef ''http://example.org/bob'', URIRef ''http://xmlns.com/foaf/0.1/name'',
         Literal ''Bob'' None None),
      (URIRef ''http://example.org/alice'', URIRef ''http://xmlns.com/foaf/0.1/knows'',
         URIRef ''http://example.org/bob'')}"

text \<open>The triples held by an object (none when it is not a graph).\<close>

definition triples_of :: "pyobj \<Rightarrow> triple set" where
  "triples_of obj = (case obj of GraphObj ts \<Rightarrow> ts | NdArray m \<Rightarrow> {})"

text \<open>
  A sequence of \<^verbatim>\<open>add\<close> calls on one graph, run in order; it stops at the first
  call that fails.
\<close>

fun graph_add_all :: "nat \<Rightarrow> triple list \<Rightarrow> world \<Rightarrow> error + world" where
  "graph_add_all g [] w = Inr w"
| "graph_add_all g (t # ts) w =
     (case graph_add g t w of Inl e \<Rightarrow> Inl e | Inr w' \<Rightarrow> graph_add_all g ts w')"

section \<open>The determinant routine of numpy, in binary64 arithmetic\<close>

text \<open>
  \<^verbatim>\<open>np.linalg.det\<close> is not part of the repository. To say which number
  \<^verbatim>\<open>calc_det\<close> prints, the routine is modelled after numpy's implementation: the
  integer entries are converted to binary64, LAPACK's \<^verbatim>\<open>getrf\<close> factorises the
  matrix (LU with partial pivoting), and the determinant is
  \<^verbatim>\<open>sign * exp(logdet)\<close>, where \<^verbatim>\<open>logdet\<close> is the running sum of
  \<^verbatim>\<open>log(abs(u))\<close> over the diagonal of the factor U and \<^verbatim>\<open>sign\<close> is -1 for an
  odd number of row exchanges, negated once more for every negative diagonal entry.

  A binary64 number is a real number here; every arithmetic operation is the exact
  operation followed by \<open>fl\<close>, rounding to the nearest number with a 53-bit significand,
  ties to the even significand. The exponent range (overflow, subnormal numbers) and the
  special values are left out: every nonzero number the program meets lies between 1/4 and 4.
\<close>

definition round_half_even :: "real \<Rightarrow> int" where
  "round_half_even q =
     (let n = \<lfloor>q\<rfloor> in
        if q - of_int n < 1 / 2 then n
        else if 1 / 2 < q - of_int n then n + 1
        else if even n then n else n + 1)"

definition fl :: "real \<Rightarrow> real" where
  "fl x = (if x = 0 then 0
           else (let e = \<lfloor>log 2 \<bar>x\<bar>\<rfloor>
                 in of_int (round_half_even (x * 2 powi (52 - e))) * 2 powi (e - 52)))"

text \<open>
  \<^verbatim>\<open>log\<close> and \<^verbatim>\<open>exp\<close> of the C library, taken as correctly rounded. On the three
  arguments of this program every implementation whose error stays below 0.59 units in the
  last place returns the same numbers.
\<close>

definition fl_log :: "real \<Rightarrow> real" where
  "fl_log x = fl (ln x)"

definition fl_exp :: "real \<Rightarrow> real" where
  "fl_exp x = fl (exp x)"

text \<open>
  The pivot search of \<^verbatim>\<open>getrf\<close>: the index of the first entry of largest absolute
  value in the column.
\<close>

fun argmax_abs :: "real list \<Rightarrow> nat" where
  "argmax_abs [] = 0"
| "argmax_abs [x] = 0"
| "argmax_abs (x # y # ys) =
     (let j = argmax_abs (y # ys) in if \<bar>(y # ys) ! j\<bar> \<le> \<bar>x\<bar> then 0 else Suc j)"

text \<open>
  One row of the elimination step: the multiplier is the leading entry times the
  reciprocal of the pivot, and each remaining entry loses the multiplier times the entry
  of the pivot row above it. The result is the row without its leading entry.
\<close>

definition eliminate :: "real list \<Rightarrow> real list \<Rightarrow> real list" where
  "eliminate prow r =
     (let l = fl (hd r * fl (1 / hd prow))
      in map2 (\<lambda>a u. fl (a - fl (l * u))) (tl r) (tl prow))"

text \<open>
  The factorisation, on the rows of a square matrix: the number of row exchanges and the
  diagonal of U, or \<open>None\<close> when a pivot is zero (the matrix is singular).
\<close>

function getrf :: "real list list \<Rightarrow> (nat \<times> real list) option" where
  "getrf [] = Some (0, [])"
| "getrf (r # rs) =
     (let p = argmax_abs (map hd (r # rs));
          prow = (r # rs) ! p;
          rest = (if p = 0 then rs else rs[p - 1 := r])
      in if hd prow = 0 then None
         else (case getrf (map (eliminate prow) rest) of
                 None \<Rightarrow> None
               | Some (k, d) \<Rightarrow> Some (if p = 0 then k else Suc k, hd prow # d)))"
  by pat_completeness auto
termination
  by (relation "measure length") auto

text \<open>The determinant: 0 for a singular matrix, \<^verbatim>\<open>sign * exp(logdet)\<close> otherwise.\<close>

definition np_linalg_det :: "int list list \<Rightarrow> real" where
  "np_linalg_det m =
     (case getrf (map (map (\<lambda>a. fl (of_int a))) m) of
        None \<Rightarrow> 0
      | Some (k, d) \<Rightarrow>
          (let sign = foldl (\<lambda>s u. if u < 0 then - s else s) (if odd k then - 1 else 1) d;
               logdet = foldl (\<lambda>acc u. fl (acc + fl_log \<bar>u\<bar>)) 0 d
           in fl (sign * fl_exp logdet)))"

section \<open>What the two functions compute\<close>

lemma serialize_graph_eq:
  "serialize_graph ser w =
     Inr (ser spec_triples, w\<lparr>heap := heap w @ [GraphObj spec_triples]\<rparr>)"
proof -
  have "insert (URIRef ''http://example.org/alice'', URIRef ''http://xmlns.com/foaf/0.1/knows'',
           URIRef ''http://example.org/bob'')
         (insert (URIRef ''http://example.org/bob'', URIRef ''http://xmlns.com/foaf/0.1/name'',
           Literal ''Bob'' None None)
         (insert (URIRef ''http://example.org/alice'', URIRef ''http://xmlns.com/foaf/0.1/name'',
           Literal ''Alice'' None None) {})) = spec_triples"
    unfolding spec_triples_def by blast
  then show ?thesis
    by (simp add: serialize_graph_def Graph_new_def graph_add_def graph_serialize_def
        FOAF_def Literal_of_str_def nth_append)
qed

lemma calc_det_eq:
  "calc_det det fmt w =
     Inr (w\<lparr>stdout := stdout w @ ''Determinant is '' @ fmt (det [[1, 2], [3, 4]]) @ [CHR 0x0A],
            heap := heap w @ [NdArray [[1, 2], [3, 4]]]\<rparr>)"
  by (simp add: calc_det_def np_array_def linalg_det_def is_square_def py_print_def nth_append)

section \<open>Adding to a graph\<close>

lemma heap_update_same: "heap w ! g = obj \<Longrightarrow> w\<lparr>heap := (heap w)[g := obj]\<rparr> = w"
proof -
  assume "heap w ! g = obj"
  then have "(heap w)[g := obj] = heap w"
    using list_update_id[of "heap w" g] by simp
  then show ?thesis by simp
qed

lemma graph_add_present:
  "g < length (heap w) \<Longrightarrow> heap w ! g = GraphObj G \<Longrightarrow> t \<in> G \<Longrightarrow> graph_add g t w = Inr w"
  by (simp add: graph_add_def insert_absorb heap_update_same)

lemma graph_add_all_eq:
  "g < length (heap w) \<Longrightarrow> heap w ! g = GraphObj G \<Longrightarrow>
   graph_add_all g ts w = Inr (w\<lparr>heap := (heap w)[g := GraphObj (set ts \<union> G)]\<rparr>)"
proof (induction ts arbitrary: w G)
  case Nil
  then show ?case by (simp add: heap_update_same)
next
  case (Cons t ts)
  let ?w1 = "w\<lparr>heap := (heap w)[g := GraphObj (insert t G)]\<rparr>"
  have a: "graph_add g t w = Inr ?w1"
    using Cons.prems by (simp add: graph_add_def)
  have b: "g < length (heap ?w1)" "heap ?w1 ! g = GraphObj (insert t G)"
    using Cons.prems by simp_all
  show ?case
    using Cons.IH[OF b] a by simp
qed

lemma graph_add_all_snoc:
  "graph_add_all g (ts @ [t]) w =
     (case graph_add_all g ts w of Inl e \<Rightarrow> Inl e | Inr w' \<Rightarrow> graph_add g t w')"
  by (induction ts arbitrary: w) (auto split: sum.splits)

lemma card_spec_triples: "card spec_triples = 3"
  by (simp add: spec_triples_def)

section \<open>Rounding to binary64\<close>

lemma round_half_even_near: "\<bar>q - of_int n\<bar> < 1 / 2 \<Longrightarrow> round_half_even q = n"
proof -
  assume a: "\<bar>q - of_int n\<bar> < 1 / 2"
  show ?thesis
  proof (cases "of_int n \<le> q")
    case True
    then have "\<lfloor>q\<rfloor> = n" using a by (intro floor_unique) auto
    then show ?thesis using a True by (simp add: round_half_even_def)
  next
    case False
    then have f: "\<lfloor>q\<rfloor> = n - 1" using a by (intro floor_unique) auto
    then show ?thesis using a False by (auto simp add: round_half_even_def Let_def)
  qed
qed

lemma floor_log2:
  assumes "2 powi e \<le> x" "x < 2 powi (e + 1)"
  shows "\<lfloor>log 2 x\<rfloor> = e"
proof -
  have p: "(0::real) < 2 powi e" by simp
  then have x: "0 < x" using assms(1) by linarith
  have a: "(2::real) powr (of_int e) = 2 powi e"
    by (simp add: powr_real_of_int')
  have "(2::real) powr (of_int (e + 1)) = 2 powi (e + 1)"
    by (rule powr_real_of_int') simp_all
  then have b: "(2::real) powr (of_int e + 1) = 2 powi (e + 1)" by simp
  show ?thesis
    using floor_log_eq_powr_iff[of x 2 e] x assms a b by simp
qed

lemma fl_eq:
  assumes "2 powi e \<le> \<bar>x\<bar>" "\<bar>x\<bar> < 2 powi (e + 1)"
    and "\<bar>x * 2 powi (52 - e) - of_int n\<bar> < 1 / 2"
  shows "fl x = of_int n * 2 powi (e - 52)"
proof -
  have "(0::real) < 2 powi e" by simp
  then have "x \<noteq> 0" using assms(1) by linarith
  moreover have "\<lfloor>log 2 \<bar>x\<bar>\<rfloor> = e" using assms(1,2) by (rule floor_log2)
  ultimately show ?thesis
    using round_half_even_near[OF assms(3)] by (simp add: fl_def)
qed

lemma fl_eq2:
  assumes "p = 2 powi e" "p \<le> \<bar>x\<bar>" "\<bar>x\<bar> < 2 * p"
    and "\<bar>x * 2 ^ 52 / p - of_int n\<bar> < 1 / 2"
  shows "fl x = of_int n * p / 2 ^ 52"
proof -
  have a: "(2::real) powi (e + 1) = 2 * p"
    using assms(1) by (simp add: power_int_add)
  have b: "(2::real) powi (52 - e) = 2 ^ 52 / p"
    using assms(1) by (simp add: power_int_diff)
  have c: "(2::real) powi (e - 52) = p / 2 ^ 52"
    using assms(1) by (simp add: power_int_diff)
  show ?thesis
    using fl_eq[of e x n] assms a b c by simp
qed


section \<open>Bounds on the exponential function\<close>

text \<open>
  Taylor polynomials with the Lagrange remainder bound \<open>exp\<close> from both sides; an argument
  is split into a fraction with a small denominator and a small rest, so that the
  polynomials are cheap to evaluate.
\<close>

lemma exp_taylor_lower:
  fixes x :: real
  assumes "0 \<le> x"
  shows "(\<Sum>m<n. x ^ m / fact m) \<le> exp x"
proof -
  obtain t where t: "exp x = (\<Sum>m<n. x ^ m / fact m) + (exp t / fact n) * x ^ n"
    using Maclaurin_exp_le[of x n] by blast
  have "0 \<le> (exp t / fact n) * x ^ n" using assms by simp
  then show ?thesis using t by linarith
qed

lemma exp_taylor_upper:
  fixes x :: real
  assumes "0 \<le> x" "x \<le> 2"
  shows "exp x \<le> (\<Sum>m<n. x ^ m / fact m) + 9 * x ^ n / fact n"
proof -
  obtain t where t: "\<bar>t\<bar> \<le> \<bar>x\<bar>" "exp x = (\<Sum>m<n. x ^ m / fact m) + (exp t / fact n) * x ^ n"
    using Maclaurin_exp_le[of x n] by blast
  have "t \<le> 1 + 1" using t(1) assms by linarith
  then have "exp t \<le> exp (1 + 1)" by (simp only: exp_le_cancel_iff)
  also have "\<dots> = exp 1 * exp 1" by (rule exp_add)
  also have "\<dots> \<le> 3 * 3" using exp_le by (intro mult_mono) simp_all
  finally have "exp t \<le> 9" by simp
  then have "exp t * (x ^ n / fact n) \<le> 9 * (x ^ n / fact n)"
    using assms by (intro mult_right_mono) simp_all
  then show ?thesis using t(2) by simp
qed

lemma exp_lt_split:
  fixes c1 c2 :: real
  assumes "0 \<le> c1" "c1 \<le> 2" "0 \<le> c2" "c2 \<le> 2"
    and "(\<Sum>m<n1. c1 ^ m / fact m) + 9 * c1 ^ n1 / fact n1 \<le> U1"
    and "(\<Sum>m<n2. c2 ^ m / fact m) + 9 * c2 ^ n2 / fact n2 \<le> U2"
    and "U1 * U2 < r"
  shows "exp (c1 + c2) < r"
proof -
  have a: "exp c1 \<le> U1" using exp_taylor_upper[OF assms(1,2), of n1] assms(5) by linarith
  have b: "exp c2 \<le> U2" using exp_taylor_upper[OF assms(3,4), of n2] assms(6) by linarith
  have "exp c1 * exp c2 \<le> U1 * U2"
    using a b by (intro mult_mono) (simp_all add: order_trans[OF _ a])
  then show ?thesis using assms(7) by (simp add: exp_add)
qed

lemma exp_gt_split:
  fixes c1 c2 :: real
  assumes "0 \<le> c1" "0 \<le> c2" "0 \<le> V1" "0 \<le> V2"
    and "V1 \<le> (\<Sum>m<n1. c1 ^ m / fact m)"
    and "V2 \<le> (\<Sum>m<n2. c2 ^ m / fact m)"
    and "r < V1 * V2"
  shows "r < exp (c1 + c2)"
proof -
  have a: "V1 \<le> exp c1" using exp_taylor_lower[OF assms(1), of n1] assms(5) by linarith
  have b: "V2 \<le> exp c2" using exp_taylor_lower[OF assms(2), of n2] assms(6) by linarith
  have "V1 * V2 \<le> exp c1 * exp c2"
    using a b assms(3,4) by (intro mult_mono) simp_all
  then show ?thesis using assms(7) by (simp add: exp_add)
qed

lemma exp_ln3_lo: "exp (9895419787740693 / 2 ^ 53) < (3 :: real)"
proof -
  have s: "(9895419787740693 / 2 ^ 53 :: real) = 281 / 2 ^ 8 + 8611230778901 / 2 ^ 53"
    by simp
  have b1: "(\<Sum>m<23. (281 / 2 ^ 8 :: real) ^ m / fact m) + 9 * (281 / 2 ^ 8) ^ 23 / fact 23 \<le> 1855135629455282086103483867 / 2 ^ 89"
    by (simp add: lessThan_nat_numeral fact_numeral power_divide)
  have b2: "(\<Sum>m<6. (8611230778901 / 2 ^ 53 :: real) ^ m / fact m) + 9 * (8611230778901 / 2 ^ 53) ^ 6 / fact 6 \<le> 619562061878410029951487351 / 2 ^ 89"
    by (simp add: lessThan_nat_numeral fact_numeral power_divide)
  have p: "(1855135629455282086103483867 / 2 ^ 89 :: real) * (619562061878410029951487351 / 2 ^ 89) < 3"
    by simp
  show ?thesis
    unfolding s by (rule exp_lt_split[OF _ _ _ _ b1 b2 p]) simp_all
qed

lemma exp_ln3_hi: "(3 :: real) < exp (9895419787740695 / 2 ^ 53)"
proof -
  have s: "(9895419787740695 / 2 ^ 53 :: real) = 281 / 2 ^ 8 + 8611230778903 / 2 ^ 53"
    by simp
  have b1: "(3710271258910564172203293439 / 2 ^ 90 :: real) \<le> (\<Sum>m<23. (281 / 2 ^ 8) ^ m / fact m)"
    by (simp add: lessThan_nat_numeral fact_numeral power_divide)
  have b2: "(1239124123756820335031985435 / 2 ^ 90 :: real) \<le> (\<Sum>m<6. (8611230778903 / 2 ^ 53) ^ m / fact m)"
    by (simp add: lessThan_nat_numeral fact_numeral power_divide)
  have p: "(3 :: real) < (3710271258910564172203293439 / 2 ^ 90) * (1239124123756820335031985435 / 2 ^ 90)"
    by simp
  show ?thesis
    unfolding s by (rule exp_gt_split[OF _ _ _ _ b1 b2 p]) simp_all
qed

lemma exp_lnu_lo: "(4503599627370496 / 3002399751580331 :: real) < exp (14608420078301333 / 2 ^ 55)"
proof -
  have s: "(14608420078301333 / 2 ^ 55 :: real) = 415 / 2 ^ 10 + 6905661436053 / 2 ^ 55"
    by simp
  have b1: "(1856554177954819917632179805 / 2 ^ 90 :: real) \<le> (\<Sum>m<17. (415 / 2 ^ 10) ^ m / fact m)"
    by (simp add: lessThan_nat_numeral fact_numeral power_divide)
  have b2: "(1238177338746520575227336943 / 2 ^ 90 :: real) \<le> (\<Sum>m<6. (6905661436053 / 2 ^ 55) ^ m / fact m)"
    by (simp add: lessThan_nat_numeral fact_numeral power_divide)
  have p: "(4503599627370496 / 3002399751580331 :: real) < (1856554177954819917632179805 / 2 ^ 90) * (1238177338746520575227336943 / 2 ^ 90)"
    by simp
  show ?thesis
    unfolding s by (rule exp_gt_split[OF _ _ _ _ b1 b2 p]) simp_all
qed

lemma exp_lnu_hi: "exp (14608420078301331 / 2 ^ 55) < (4503599627370496 / 3002399751580331 :: real)"
proof -
  have s: "(14608420078301331 / 2 ^ 55 :: real) = 415 / 2 ^ 10 + 6905661436051 / 2 ^ 55"
    by simp
  have b1: "(\<Sum>m<17. (415 / 2 ^ 10 :: real) ^ m / fact m) + 9 * (415 / 2 ^ 10) ^ 17 / fact 17 \<le> 1856554177954819917638903253 / 2 ^ 90"
    by (simp add: lessThan_nat_numeral fact_numeral power_divide)
  have b2: "(\<Sum>m<6. (6905661436051 / 2 ^ 55 :: real) ^ m / fact m) + 9 * (6905661436051 / 2 ^ 55) ^ 6 / fact 6 \<le> 1238177338746520506494688209 / 2 ^ 90"
    by (simp add: lessThan_nat_numeral fact_numeral power_divide)
  have p: "(1856554177954819917638903253 / 2 ^ 90 :: real) * (1238177338746520506494688209 / 2 ^ 90) < 4503599627370496 / 3002399751580331"
    by simp
  show ?thesis
    unfolding s by (rule exp_lt_split[OF _ _ _ _ b1 b2 p]) simp_all
qed

lemma exp_S_lo: "(9007199254740993 / 2 ^ 52 :: real) < exp (6243314768165361 / 2 ^ 53)"
proof -
  have s: "(6243314768165361 / 2 ^ 53 :: real) = 709 / 2 ^ 10 + 6884815419889 / 2 ^ 53"
    by simp
  have b1: "(1236994159005613499702121027 / 2 ^ 89 :: real) \<le> (\<Sum>m<20. (709 / 2 ^ 10) ^ m / fact m)"
    by (simp add: lessThan_nat_numeral fact_numeral power_divide)
  have b2: "(1238886642842211410393761841 / 2 ^ 90 :: real) \<le> (\<Sum>m<6. (6884815419889 / 2 ^ 53) ^ m / fact m)"
    by (simp add: lessThan_nat_numeral fact_numeral power_divide)
  have p: "(9007199254740993 / 2 ^ 52 :: real) < (1236994159005613499702121027 / 2 ^ 89) * (1238886642842211410393761841 / 2 ^ 90)"
    by simp
  show ?thesis
    unfolding s by (rule exp_gt_split[OF _ _ _ _ b1 b2 p]) simp_all
qed

lemma exp_S_hi: "exp (6243314768165361 / 2 ^ 53) < (9007199254740995 / 2 ^ 52 :: real)"
proof -
  have s: "(6243314768165361 / 2 ^ 53 :: real) = 709 / 2 ^ 10 + 6884815419889 / 2 ^ 53"
    by simp
  have b1: "(\<Sum>m<20. (709 / 2 ^ 10 :: real) ^ m / fact m) + 9 * (709 / 2 ^ 10) ^ 20 / fact 20 \<le> 2473988318011226999407177967 / 2 ^ 90"
    by (simp add: lessThan_nat_numeral fact_numeral power_divide)
  have b2: "(\<Sum>m<6. (6884815419889 / 2 ^ 53 :: real) ^ m / fact m) + 9 * (6884815419889 / 2 ^ 53) ^ 6 / fact 6 \<le> 1238886642842211410396848047 / 2 ^ 90"
    by (simp add: lessThan_nat_numeral fact_numeral power_divide)
  have p: "(2473988318011226999407177967 / 2 ^ 90 :: real) * (1238886642842211410396848047 / 2 ^ 90) < 9007199254740995 / 2 ^ 52"
    by simp
  show ?thesis
    unfolding s by (rule exp_lt_split[OF _ _ _ _ b1 b2 p]) simp_all
qed

section \<open>The determinant of the matrix of the program\<close>

lemma fl_1: "fl 1 = 1"
  using fl_eq2[of 1 0 1 "2 ^ 52"] by simp

lemma fl_2: "fl 2 = 2"
  using fl_eq2[of 2 1 2 "2 ^ 52"] by simp

lemma fl_3: "fl 3 = 3"
  using fl_eq2[of 2 1 3 "3 * 2 ^ 51"] by simp

lemma fl_4: "fl 4 = 4"
  using fl_eq2[of 4 2 4 "2 ^ 52"] by simp

lemma fl_third: "fl (1 / 3) = 6004799503160661 / 2 ^ 54"
  using fl_eq2[of "1 / 4" "- 2" "1 / 3" 6004799503160661] by (simp add: power_int_minus)

lemma fl_third_again: "fl (6004799503160661 / 2 ^ 54) = 6004799503160661 / 2 ^ 54"
  using fl_eq2[of "1 / 4" "- 2" "6004799503160661 / 2 ^ 54" 6004799503160661]
  by (simp add: power_int_minus)

lemma fl_l_times_4: "fl (6004799503160661 / 2 ^ 54 * 4) = 6004799503160661 / 2 ^ 52"
  using fl_eq2[of 1 0 "6004799503160661 / 2 ^ 54 * 4" 6004799503160661] by simp

lemma fl_u22: "fl (2 - 6004799503160661 / 2 ^ 52) = 3002399751580331 / 2 ^ 52"
  using fl_eq2[of "1 / 2" "- 1" "2 - 6004799503160661 / 2 ^ 52" 6004799503160662]
  by (simp add: power_int_minus)

lemma near_int:
  fixes x s :: real
  assumes "0 < s" "(2 * of_int n - 1) / (2 * s) < x" "x < (2 * of_int n + 1) / (2 * s)"
  shows "\<bar>x * s - of_int n\<bar> < 1 / 2"
proof -
  define y where "y = x * s"
  have "2 * of_int n - 1 < x * (2 * s)" using assms(1,2) by (simp add: pos_divide_less_eq)
  then have a: "2 * of_int n - 1 < 2 * y" by (simp add: y_def)
  have "x * (2 * s) < 2 * of_int n + 1" using assms(1,3) by (simp add: pos_less_divide_eq)
  then have b: "2 * y < 2 * of_int n + 1" by (simp add: y_def)
  have "\<bar>y - of_int n\<bar> < 1 / 2" using a b by linarith
  then show ?thesis by (simp only: y_def)
qed

lemma fl_between:
  assumes "p = 2 powi e" "p \<le> \<bar>x\<bar>" "\<bar>x\<bar> < 2 * p"
    and "lo < x" "x < hi"
    and "lo = (2 * of_int n - 1) * p / 2 ^ 53" "hi = (2 * of_int n + 1) * p / 2 ^ 53"
  shows "fl x = of_int n * p / 2 ^ 52"
proof -
  have p: "0 < p" using assms(1) by simp
  have "\<bar>x * (2 ^ 52 / p) - of_int n\<bar> < 1 / 2"
  proof (rule near_int)
    show "0 < 2 ^ 52 / p" using p by simp
    show "(2 * of_int n - 1) / (2 * (2 ^ 52 / p)) < x"
      using assms(4,6) p by (simp add: field_simps)
    show "x < (2 * of_int n + 1) / (2 * (2 ^ 52 / p))"
      using assms(5,7) p by (simp add: field_simps)
  qed
  then have "\<bar>x * 2 ^ 52 / p - of_int n\<bar> < 1 / 2" by simp
  then show ?thesis using fl_eq2[OF assms(1,2,3)] by simp
qed

lemma ln3_bounds:
  "9895419787740693 / 2 ^ 53 < ln (3::real)" "ln (3::real) < 9895419787740695 / 2 ^ 53"
proof -
  have "exp (9895419787740693 / 2 ^ 53) < exp (ln (3::real))" using exp_ln3_lo by simp
  then show "9895419787740693 / 2 ^ 53 < ln (3::real)" by (simp only: exp_less_cancel_iff)
  have "exp (ln (3::real)) < exp (9895419787740695 / 2 ^ 53)" using exp_ln3_hi by simp
  then show "ln (3::real) < 9895419787740695 / 2 ^ 53" by (simp only: exp_less_cancel_iff)
qed

lemma fl_ln_3: "fl (ln 3) = 4947709893870347 / 2 ^ 52"
proof -
  have "fl (ln 3) = of_int 4947709893870347 * 1 / 2 ^ 52"
  proof (rule fl_between[where e = 0, OF _ _ _ ln3_bounds])
    show "1 \<le> \<bar>ln (3::real)\<bar>" using ln3_bounds(1) by simp
    show "\<bar>ln (3::real)\<bar> < 2 * 1" using ln3_bounds by simp
  qed simp_all
  then show ?thesis by simp
qed

lemma lnu_bounds:
  "- (14608420078301333 / 2 ^ 55) < ln (3002399751580331 / 2 ^ 52 :: real)"
  "ln (3002399751580331 / 2 ^ 52 :: real) < - (14608420078301331 / 2 ^ 55)"
proof -
  let ?u = "3002399751580331 / 2 ^ 52 :: real"
  have u: "0 < ?u" by simp
  have "1 / ?u < exp (14608420078301333 / 2 ^ 55)" using exp_lnu_lo by simp
  then have "1 < ?u * exp (14608420078301333 / 2 ^ 55)" by (simp add: field_simps)
  then have "exp (- (14608420078301333 / 2 ^ 55)) < exp (ln ?u)"
    by (simp add: exp_minus field_simps)
  then show "- (14608420078301333 / 2 ^ 55) < ln ?u" by (simp only: exp_less_cancel_iff)
  have "exp (14608420078301331 / 2 ^ 55) < 1 / ?u" using exp_lnu_hi by simp
  then have "?u * exp (14608420078301331 / 2 ^ 55) < 1" by (simp add: field_simps)
  then have "exp (ln ?u) < exp (- (14608420078301331 / 2 ^ 55))"
    by (simp add: exp_minus field_simps)
  then show "ln ?u < - (14608420078301331 / 2 ^ 55)" by (simp only: exp_less_cancel_iff)
qed

lemma fl_ln_u: "fl (ln (3002399751580331 / 2 ^ 52)) = - (3652105019575333 / 2 ^ 53)"
proof -
  let ?l = "ln (3002399751580331 / 2 ^ 52 :: real)"
  have "fl ?l = of_int (- 7304210039150666) * (1 / 4) / 2 ^ 52"
  proof (rule fl_between[where e = "- 2", OF _ _ _ lnu_bounds])
    show "(1 / 4 :: real) = 2 powi (- 2)" by (simp add: power_int_minus)
    show "1 / 4 \<le> \<bar>?l\<bar>" using lnu_bounds(2) by simp
    show "\<bar>?l\<bar> < 2 * (1 / 4)" using lnu_bounds by simp
  qed simp_all
  then show ?thesis by simp
qed

lemma exp_S_bounds:
  "9007199254740993 / 2 ^ 52 < exp (6243314768165361 / 2 ^ 53 :: real)"
  "exp (6243314768165361 / 2 ^ 53 :: real) < 9007199254740995 / 2 ^ 52"
  using exp_S_lo exp_S_hi by simp_all

lemma fl_exp_S: "fl (exp (6243314768165361 / 2 ^ 53)) = 2 + 1 / 2 ^ 51"
proof -
  let ?e = "exp (6243314768165361 / 2 ^ 53 :: real)"
  have "fl ?e = of_int 4503599627370497 * 2 / 2 ^ 52"
  proof (rule fl_between[where e = 1, OF _ _ _ exp_S_bounds])
    show "2 \<le> \<bar>?e\<bar>" using exp_S_bounds(1) by simp
    show "\<bar>?e\<bar> < 2 * 2" using exp_S_bounds(2) by simp
  qed simp_all
  then show ?thesis by simp
qed

lemma fl_sum_logs:
  "fl (4947709893870347 / 2 ^ 52 + - (3652105019575333 / 2 ^ 53)) = 6243314768165361 / 2 ^ 53"
  using fl_eq2[of "1 / 2" "- 1" "4947709893870347 / 2 ^ 52 + - (3652105019575333 / 2 ^ 53)"
      6243314768165361]
  by (simp add: power_int_minus)

lemma fl_log3_again: "fl (4947709893870347 / 2 ^ 52) = 4947709893870347 / 2 ^ 52"
  using fl_eq2[of 1 0 "4947709893870347 / 2 ^ 52" 4947709893870347] by simp

lemma fl_result: "fl (- (2 + 1 / 2 ^ 51)) = - (2 + 1 / 2 ^ 51)"
  using fl_eq2[of 2 1 "- (2 + 1 / 2 ^ 51)" "- 4503599627370497"] by simp

lemma np_linalg_det_1234: "np_linalg_det [[1, 2], [3, 4]] = - (2 + 1 / 2 ^ 51)"
proof -
  define R :: real where "R = 6004799503160661 / 2 ^ 54"
  define R4 :: real where "R4 = 6004799503160661 / 2 ^ 52"
  define U :: real where "U = 3002399751580331 / 2 ^ 52"
  define L3 :: real where "L3 = 4947709893870347 / 2 ^ 52"
  define Lu :: real where "Lu = - (3652105019575333 / 2 ^ 53)"
  define S :: real where "S = 6243314768165361 / 2 ^ 53"
  define E :: real where "E = 2 + 1 / 2 ^ 51"
  have a: "fl (1 / 3) = R" unfolding R_def by (rule fl_third)
  have b: "fl R = R" unfolding R_def by (rule fl_third_again)
  have c: "fl (R * 4) = R4" unfolding R_def R4_def by (rule fl_l_times_4)
  have d: "fl (2 - R4) = U" unfolding R4_def U_def by (rule fl_u22)
  have u: "0 < U" unfolding U_def by simp
  have g: "getrf [[1, 2], [3, 4]] = Some (1, [3, U])"
    using u by (simp add: eliminate_def a b c d)
  have l3: "fl_log 3 = L3" unfolding fl_log_def L3_def by (rule fl_ln_3)
  have l3': "fl L3 = L3" unfolding L3_def by (rule fl_log3_again)
  have lu: "fl_log U = Lu" unfolding fl_log_def U_def Lu_def by (rule fl_ln_u)
  have s: "fl (L3 + Lu) = S" unfolding L3_def Lu_def S_def by (rule fl_sum_logs)
  have e: "fl_exp S = E" unfolding fl_exp_def S_def E_def by (rule fl_exp_S)
  have m: "fl (- E) = - E" unfolding E_def by (rule fl_result)
  have "np_linalg_det [[1, 2], [3, 4]] = - E"
    using u by (simp add: np_linalg_det_def fl_1 fl_2 fl_3 fl_4 g l3 l3' lu s e m del: getrf.simps)
  then show ?thesis unfolding E_def .
qed

section \<open>The claims\<close>

text \<open>
  C1, as stated, fails: the determinant \<^verbatim>\<open>calc_det\<close> computes for [[1,2],[3,4]] is
  not -2. With a formatter that writes -2 as "-2.0" and -(2 + 2^-51) as
  "-2.0000000000000004", as Python does, the line printed from the empty world is
  "Determinant is -2.0000000000000004".
\<close>

theorem calc_det_value_not_minus_two:
  "np_linalg_det [[1, 2], [3, 4]] \<noteq> - 2
   \<and> calc_det np_linalg_det
        (\<lambda>d. if d = - 2 then ''-2.0''
              else if d = - (2 + 1 / 2 ^ 51) then ''-2.0000000000000004'' else ''?'')
        \<lparr>stdout = [], heap = []\<rparr> =
      Inr \<lparr>stdout = ''Determinant is -2.0000000000000004'' @ [CHR 0x0A],
           heap = [NdArray [[1, 2], [3, 4]]]\<rparr>"
  by (simp add: calc_det_eq np_linalg_det_1234)

text \<open>
  C1, amended. Every call of \<^verbatim>\<open>calc_det\<close> succeeds and embeds in its output the
  binary64 number that the LU-based routine returns for [[1,2],[3,4]], which is
  -(2 + 2^-51) (written -2.0000000000000004 by Python): one unit in the last place away
  from the closed form a*d - b*c = 1*4 - 2*3 = -2, and not equal to it.
\<close>

theorem calc_det_embeds_rounded_determinant:
  "calc_det np_linalg_det fmt w =
     Inr (w\<lparr>stdout := stdout w @ ''Determinant is '' @ fmt (- (2 + 1 / 2 ^ 51)) @ [CHR 0x0A],
            heap := heap w @ [NdArray [[1, 2], [3, 4]]]\<rparr>)
   \<and> \<bar>np_linalg_det [[1, 2], [3, 4]] - (1 * 4 - 2 * 3)\<bar> = 1 / 2 ^ 51"
  by (simp add: calc_det_eq np_linalg_det_1234)

text \<open>
  C2. Every call of \<^verbatim>\<open>serialize_graph\<close> succeeds, and the graph it builds (the one new
  object of the store, which is also what the serializer is applied to) holds exactly the
  three triples (alice, foaf:name, "Alice"), (bob, foaf:name, "Bob") and
  (alice, foaf:knows, bob), with the full identifiers of the specification; the two literals
  carry no language tag and no datatype.
\<close>

theorem serialize_graph_three_triples:
  "serialize_graph ser w =
     Inr (ser {(URIRef ''http://example.org/alice'', URIRef ''http://xmlns.com/foaf/0.1/name'',
                  Literal ''Alice'' None None),
               (URIRef ''http://example.org/bob'', URIRef ''http://xmlns.com/foaf/0.1/name'',
                  Literal ''Bob'' None None),
               (URIRef ''http://example.org/alice'', URIRef ''http://xmlns.com/foaf/0.1/knows'',
                  URIRef ''http://example.org/bob'')},
          w\<lparr>heap := heap w @
            [GraphObj {(URIRef ''http://example.org/alice'', URIRef ''http://xmlns.com/foaf/0.1/name'',
                          Literal ''Alice'' None None),
                       (URIRef ''http://example.org/bob'', URIRef ''http://xmlns.com/foaf/0.1/name'',
                          Literal ''Bob'' None None),
                       (URIRef ''http://example.org/alice'', URIRef ''http://xmlns.com/foaf/0.1/knows'',
                          URIRef ''http://example.org/bob'')}]\<rparr>)"
  using serialize_graph_eq[of ser w] unfolding spec_triples_def .

theorem serialize_graph_three_triples_witness:
  "serialize_graph (\<lambda>ts. card ts) \<lparr>stdout = [], heap = []\<rparr> =
     Inr (3,
          \<lparr>stdout = [], heap =
            [GraphObj {(URIRef ''http://example.org/alice'', URIRef ''http://xmlns.com/foaf/0.1/name'',
                          Literal ''Alice'' None None),
                       (URIRef ''http://example.org/bob'', URIRef ''http://xmlns.com/foaf/0.1/name'',
                          Literal ''Bob'' None None),
                       (URIRef ''http://example.org/alice'', URIRef ''http://xmlns.com/foaf/0.1/knows'',
                          URIRef ''http://example.org/bob'')}]\<rparr>)"
  using serialize_graph_three_triples[of "\<lambda>ts. card ts" "\<lparr>stdout = [], heap = []\<rparr>"]
  by simp

text \<open>
  C4. The graph has set semantics. For every sequence of \<^verbatim>\<open>add\<close> calls on a graph,
  adding once more a triple that is already present (added earlier in the sequence, or in
  the graph before it) gives the same result as not adding it. The graph
  \<^verbatim>\<open>serialize_graph\<close> builds holds exactly 3 triples, and adding any of them again
  leaves the whole world as it is. The array \<^verbatim>\<open>calc_det\<close> constructs still holds
  [[1,2],[3,4]] when the function has returned.
\<close>

theorem graph_set_semantics:
  "(g < length (heap w) \<and> heap w ! g = GraphObj G \<and> t \<in> set ts \<union> G \<longrightarrow>
      graph_add_all g (ts @ [t]) w = graph_add_all g ts w)
   \<and> (\<exists>out w'. serialize_graph ser w = Inr (out, w')
         \<and> card (triples_of (heap w' ! length (heap w))) = 3
         \<and> (\<forall>t' \<in> triples_of (heap w' ! length (heap w)).
               graph_add (length (heap w)) t' w' = Inr w'))
   \<and> (\<exists>w'. calc_det det fmt w = Inr w'
         \<and> heap w' ! length (heap w) = NdArray [[1, 2], [3, 4]])"
proof (intro conjI impI)
  assume h: "g < length (heap w) \<and> heap w ! g = GraphObj G \<and> t \<in> set ts \<union> G"
  let ?w' = "w\<lparr>heap := (heap w)[g := GraphObj (set ts \<union> G)]\<rparr>"
  have e: "graph_add_all g ts w = Inr ?w'"
    using h graph_add_all_eq by blast
  have "graph_add g t ?w' = Inr ?w'"
    using h by (intro graph_add_present[where G = "set ts \<union> G"]) simp_all
  then show "graph_add_all g (ts @ [t]) w = graph_add_all g ts w"
    by (simp add: graph_add_all_snoc e)
next
  let ?w' = "w\<lparr>heap := heap w @ [GraphObj spec_triples]\<rparr>"
  have "\<forall>t' \<in> spec_triples. graph_add (length (heap w)) t' ?w' = Inr ?w'"
    by (intro ballI graph_add_present[where G = spec_triples]) simp_all
  then show "\<exists>out w'. serialize_graph ser w = Inr (out, w')
         \<and> card (triples_of (heap w' ! length (heap w))) = 3
         \<and> (\<forall>t' \<in> triples_of (heap w' ! length (heap w)).
               graph_add (length (heap w)) t' w' = Inr w')"
    by (simp add: serialize_graph_eq triples_of_def card_spec_triples)
next
  show "\<exists>w'. calc_det det fmt w = Inr w'
         \<and> heap w' ! length (heap w) = NdArray [[1, 2], [3, 4]]"
    by (simp add: calc_det_eq)
qed

theorem graph_set_semantics_witness:
  "graph_add_all 0 [(URIRef ''a'', URIRef ''p'', URIRef ''b''), (URIRef ''a'', URIRef ''p'', URIRef ''b'')]
       \<lparr>stdout = [], heap = [GraphObj {}]\<rparr> =
     Inr \<lparr>stdout = [], heap = [GraphObj {(URIRef ''a'', URIRef ''p'', URIRef ''b'')}]\<rparr>
   \<and> (\<exists>out w'. serialize_graph (\<lambda>ts. card ts) \<lparr>stdout = [], heap = [GraphObj {}]\<rparr> = Inr (out, w')
         \<and> card (triples_of (heap w' ! 1)) = 3
         \<and> (\<forall>t' \<in> triples_of (heap w' ! 1). graph_add 1 t' w' = Inr w'))
   \<and> (\<exists>w'. calc_det (\<lambda>m. m ! 0 ! 0 * m ! 1 ! 1 - m ! 0 ! 1 * m ! 1 ! 0)
                (\<lambda>d. if d = - 2 then ''-2'' else ''other'')
                \<lparr>stdout = [], heap = [GraphObj {}]\<rparr> = Inr w'
         \<and> heap w' ! 1 = NdArray [[1, 2], [3, 4]])"
proof -
  have h: "0 < length (heap \<lparr>stdout = [], heap = [GraphObj {}]\<rparr>)
      \<and> heap \<lparr>stdout = [], heap = [GraphObj {}]\<rparr> ! 0 = GraphObj {}
      \<and> (URIRef ''a'', URIRef ''p'', URIRef ''b'') \<in> set [(URIRef ''a'', URIRef ''p'', URIRef ''b'')] \<union> {}"
    by simp
  show ?thesis
    using h graph_set_semantics[of 0 "\<lparr>stdout = [], heap = [GraphObj {}]\<rparr>" "{}"
        "(URIRef ''a'', URIRef ''p'', URIRef ''b'')" "[(URIRef ''a'', URIRef ''p'', URIRef ''b'')]"
        "\<lambda>ts. card ts" "\<lambda>m. m ! 0 ! 0 * m ! 1 ! 1 - m ! 0 ! 1 * m ! 1 ! 0"
        "\<lambda>d. if d = - 2 then ''-2'' else ''other''"]
    by (simp add: graph_add_def)
qed

text \<open>
  C5. \<^verbatim>\<open>calc_det\<close> takes no argument of the program (only the world and the two library
  routines). Every call succeeds and appends to standard output the text
  "Determinant is " followed by the formatted determinant of [[1,2],[3,4]] and a line feed,
  and nothing else; when the formatted number contains no line feed, what was appended is
  exactly one line.
\<close>

theorem calc_det_prints_one_line:
  "\<exists>w'. calc_det det fmt w = Inr w'
     \<and> stdout w' = stdout w @ ''Determinant is '' @ fmt (det [[1, 2], [3, 4]]) @ [CHR 0x0A]
     \<and> (CHR 0x0A \<notin> set (fmt (det [[1, 2], [3, 4]])) \<longrightarrow>
          length (filter (\<lambda>c. c = CHR 0x0A) (drop (length (stdout w)) (stdout w'))) = 1)"
  by (auto simp add: calc_det_eq filter_empty_conv)

theorem calc_det_prints_one_line_witness:
  "\<exists>w'. calc_det (\<lambda>m. m ! 0 ! 0 * m ! 1 ! 1 - m ! 0 ! 1 * m ! 1 ! 0)
            (\<lambda>d. if d = - 2 then ''-2'' else ''other'') \<lparr>stdout = ''>>> '', heap = []\<rparr> = Inr w'
     \<and> stdout w' = ''>>> Determinant is -2'' @ [CHR 0x0A]
     \<and> CHR 0x0A \<notin> set ''-2''
     \<and> length (filter (\<lambda>c. c = CHR 0x0A) (drop 4 (stdout w'))) = 1"
  using calc_det_prints_one_line[of "\<lambda>m. m ! 0 ! 0 * m ! 1 ! 1 - m ! 0 ! 1 * m ! 1 ! 0"
      "\<lambda>d. if d = - 2 then ''-2'' else ''other''" "\<lparr>stdout = ''>>> '', heap = []\<rparr>"]
  by (simp add: eval_nat_numeral)

text \<open>
  C6. \<^verbatim>\<open>serialize_graph\<close> has no effect beyond its result: every call succeeds, leaves
  standard output as it was, leaves every object that existed before the call as it was,
  and allocates one object, the graph; the result is the serialization of that graph,
  returned and not printed.
\<close>

theorem serialize_graph_no_side_effect:
  "\<exists>out w'. serialize_graph ser w = Inr (out, w')
     \<and> stdout w' = stdout w
     \<and> take (length (heap w)) (heap w') = heap w
     \<and> length (heap w') = Suc (length (heap w))
     \<and> out = ser (triples_of (heap w' ! length (heap w)))"
  by (simp add: serialize_graph_eq triples_of_def)

theorem serialize_graph_no_side_effect_witness:
  "\<exists>out w'. serialize_graph (\<lambda>ts. card ts)
        \<lparr>stdout = ''abc'', heap = [NdArray [[5]], GraphObj {}]\<rparr> = Inr (out, w')
     \<and> stdout w' = ''abc''
     \<and> take 2 (heap w') = [NdArray [[5]], GraphObj {}]
     \<and> length (heap w') = 3
     \<and> out = card (triples_of (heap w' ! 2))"
  using serialize_graph_no_side_effect[of "\<lambda>ts. card ts"
      "\<lparr>stdout = ''abc'', heap = [NdArray [[5]], GraphObj {}]\<rparr>"]
  by (simp add: eval_nat_numeral)

text \<open>
  C7. No state is shared between calls. Two calls of \<^verbatim>\<open>serialize_graph\<close> in succession
  both succeed with the same result and leave two graph objects, each holding the three
  triples. \<^verbatim>\<open>calc_det\<close> followed by \<^verbatim>\<open>serialize_graph\<close>, and the two in the other
  order, all succeed: the serialization is the same in both orders, and so is the text on
  standard output, which is what \<^verbatim>\<open>calc_det\<close> alone writes.
\<close>

theorem no_state_between_calls:
  "(\<exists>o1 w1 o2 w2. serialize_graph ser w = Inr (o1, w1) \<and> serialize_graph ser w1 = Inr (o2, w2)
       \<and> o1 = o2
       \<and> heap w2 ! length (heap w) = GraphObj spec_triples
       \<and> heap w2 ! Suc (length (heap w)) = GraphObj spec_triples)
   \<and> (\<exists>wa oa wa' ob wb wb'.
         calc_det det fmt w = Inr wa \<and> serialize_graph ser wa = Inr (oa, wa')
       \<and> serialize_graph ser w = Inr (ob, wb) \<and> calc_det det fmt wb = Inr wb'
       \<and> oa = ob \<and> stdout wa' = stdout wa \<and> stdout wb' = stdout wa)"
  by (simp add: serialize_graph_eq calc_det_eq nth_append)

text \<open>
  C8. \<^verbatim>\<open>calc_det\<close> is idempotent in what it prints: for every two calls, from whatever
  two worlds, both succeed and append one and the same text to standard output.
\<close>

theorem calc_det_idempotent:
  "\<exists>line w1' w2'. calc_det det fmt w1 = Inr w1' \<and> calc_det det fmt w2 = Inr w2'
     \<and> stdout w1' = stdout w1 @ line \<and> stdout w2' = stdout w2 @ line"
  by (simp add: calc_det_eq)

text \<open>
  C9. Neither function can fail: from every world, \<^verbatim>\<open>calc_det\<close> and
  \<^verbatim>\<open>serialize_graph\<close> return a result and never an error. The references they use are
  the ones they have just allocated, and the array handed to the determinant is square.
\<close>

theorem no_runtime_failure:
  "(\<exists>w'. calc_det det fmt w = Inr w') \<and> (\<exists>out w'. serialize_graph ser w = Inr (out, w'))"
  by (simp add: calc_det_eq serialize_graph_eq)

end
